theory Spec2Isabelle
  imports Complex_Main "HOL-Library.AList" "HOL-Library.Sublist"
begin

section \<open>Python values\<close>

text \<open>
  The hub (\<^verbatim>\<open>src/main.py\<close>) works on the values \<^verbatim>\<open>json.loads\<close> returns. A dict
  is an association list in insertion order, its keys strings, each of them once. A \<^verbatim>\<open>str\<close> is a
  \<^typ>\<open>string\<close>: the model covers the code points 0 to 255. A finite float is the
  rational it denotes; the literals NaN and Infinity that \<^verbatim>\<open>json.loads\<close> also takes
  are left out.
\<close>

datatype json =
    JNull
  | JBool bool
  | JInt int
  | JFloat rat
  | JStr string
  | JArr "json list"
  | JObj "(string \<times> json) list"

text \<open>The exceptions the handlers can meet.\<close>

datatype py_exc = JSONDecodeError | KeyError | TypeError | OtherError

definition bind_exc :: "py_exc + 'a \<Rightarrow> ('a \<Rightarrow> py_exc + 'b) \<Rightarrow> py_exc + 'b" where
  "bind_exc m f = (case m of Inl e \<Rightarrow> Inl e | Inr x \<Rightarrow> f x)"

text \<open>A comprehension or loop whose body can raise: the first exception ends it.\<close>

primrec map_exc :: "('a \<Rightarrow> py_exc + 'b) \<Rightarrow> 'a list \<Rightarrow> py_exc + 'b list" where
  "map_exc f [] = Inr []"
| "map_exc f (x # xs) =
     (case f x of
        Inl e \<Rightarrow> Inl e
      | Inr y \<Rightarrow> (case map_exc f xs of Inl e \<Rightarrow> Inl e | Inr ys \<Rightarrow> Inr (y # ys)))"

text \<open>\<^verbatim>\<open>obj[k]\<close> for a string \<open>k\<close>: only a dict can be indexed by a string.\<close>

fun getitem :: "json \<Rightarrow> string \<Rightarrow> py_exc + json" where
  "getitem (JObj kvs) k = (case map_of kvs k of None \<Rightarrow> Inl KeyError | Some v \<Rightarrow> Inr v)"
| "getitem _ k = Inl TypeError"

text \<open>\<^verbatim>\<open>obj[k] = v\<close> for a string \<open>k\<close>.\<close>

fun setitem :: "json \<Rightarrow> string \<Rightarrow> json \<Rightarrow> py_exc + json" where
  "setitem (JObj kvs) k v = Inr (JObj (AList.update k v kvs))"
| "setitem _ k v = Inl TypeError"

text \<open>\<^verbatim>\<open>k in obj\<close> for a string \<open>k\<close>: key of a dict, element of a list, substring of a string.\<close>

fun py_in :: "string \<Rightarrow> json \<Rightarrow> py_exc + bool" where
  "py_in k (JObj kvs) = Inr (k \<in> set (map fst kvs))"
| "py_in k (JArr xs) = Inr (JStr k \<in> set xs)"
| "py_in k (JStr s) = Inr (sublist k s)"
| "py_in k _ = Inl TypeError"

text \<open>\<^verbatim>\<open>for x in obj\<close>: the elements of a list, the characters of a string, the keys of a dict.\<close>

fun py_iter :: "json \<Rightarrow> py_exc + json list" where
  "py_iter (JArr xs) = Inr xs"
| "py_iter (JStr s) = Inr (map (\<lambda>ch. JStr [ch]) s)"
| "py_iter (JObj kvs) = Inr (map (\<lambda>kv. JStr (fst kv)) kvs)"
| "py_iter _ = Inl TypeError"

text \<open>
  A value used as the key of a dict. Lists and dicts are unhashable (TypeError); \<^verbatim>\<open>True\<close>,
  \<^verbatim>\<open>1\<close> and \<^verbatim>\<open>1.0\<close> are one key, as are \<^verbatim>\<open>False\<close>, \<^verbatim>\<open>0\<close> and \<^verbatim>\<open>0.0\<close>.
\<close>

datatype key = KNone | KNum rat | KStr string

fun key_of :: "json \<Rightarrow> py_exc + key" where
  "key_of JNull = Inr KNone"
| "key_of (JBool b) = Inr (KNum (if b then 1 else 0))"
| "key_of (JInt i) = Inr (KNum (of_int i))"
| "key_of (JFloat q) = Inr (KNum q)"
| "key_of (JStr s) = Inr (KStr s)"
| "key_of (JArr xs) = Inl TypeError"
| "key_of (JObj kvs) = Inl TypeError"

text \<open>\<^verbatim>\<open>d[k]\<close> and \<^verbatim>\<open>del d[k]\<close> on the hub's own dicts.\<close>

definition dict_get :: "('k \<times> 'v) list \<Rightarrow> 'k \<Rightarrow> py_exc + 'v" where
  "dict_get d k = (case map_of d k of None \<Rightarrow> Inl KeyError | Some v \<Rightarrow> Inr v)"

definition dict_del :: "'k \<Rightarrow> ('k \<times> 'v) list \<Rightarrow> py_exc + ('k \<times> 'v) list" where
  "dict_del k d = (if map_of d k = None then Inl KeyError else Inr (AList.delete k d))"

subsection \<open>Strings\<close>

text \<open>\<^verbatim>\<open>str(n)\<close> for an int and \<^verbatim>\<open>s.lower()\<close>.\<close>

definition digit_char :: "nat \<Rightarrow> char" where
  "digit_char d = char_of (48 + d)"

fun str_nat :: "nat \<Rightarrow> string" where
  "str_nat n = (if n < 10 then [digit_char n] else str_nat (n div 10) @ [digit_char (n mod 10)])"

declare str_nat.simps [simp del]

definition py_str :: "int \<Rightarrow> string" where
  "py_str i = (if i < 0 then CHR ''-'' # str_nat (nat (- i)) else str_nat (nat i))"

text \<open>The number a string of decimal digits stands for.\<close>

definition decimal_value :: "string \<Rightarrow> nat" where
  "decimal_value ds = foldl (\<lambda>a ch. 10 * a + (of_char ch - 48)) 0 ds"

definition lower_char :: "char \<Rightarrow> char" where
  "lower_char ch =
     (let n = (of_char ch :: nat)
      in if (65 \<le> n \<and> n \<le> 90) \<or> (192 \<le> n \<and> n \<le> 222 \<and> n \<noteq> 215)
         then char_of (n + 32) else ch)"

definition py_lower :: "string \<Rightarrow> string" where
  "py_lower s = map lower_char s"

section \<open>The authenticator\<close>

text \<open>
  \<^verbatim>\<open>hmac.new(key, msg, hashlib.sha256).hexdigest()\<close> belongs to Python's library, not to
  the hub: it is the parameter \<open>hm\<close> (key first, message second).
\<close>

type_synonym hmac = "string \<Rightarrow> string \<Rightarrow> string"

definition serv_pass :: string where
  "serv_pass = ''12345678''"

definition passhash :: "hmac \<Rightarrow> string" where
  "passhash hm = py_lower (hm ''XXTouch'' serv_pass)"

text \<open>
  \<^verbatim>\<open>is_data_valid\<close> reads the clock twice, once for each bound: \<open>t1\<close> and \<open>t2\<close> are the two
  values of \<^verbatim>\<open>int(time.time())\<close>. A missing \<^verbatim>\<open>ts\<close> or \<^verbatim>\<open>sign\<close> raises KeyError; \<^verbatim>\<open>sign\<close> is
  only looked up when \<^verbatim>\<open>ts\<close> is an int (\<^verbatim>\<open>True\<close> is a bool, not an int).
\<close>

definition is_data_valid :: "hmac \<Rightarrow> int \<Rightarrow> int \<Rightarrow> json \<Rightarrow> py_exc + bool" where
  "is_data_valid hm t1 t2 data =
     bind_exc (getitem data ''ts'') (\<lambda>ts.
       case ts of
         JInt n \<Rightarrow>
           bind_exc (getitem data ''sign'') (\<lambda>sg.
             case sg of
               JStr sign \<Rightarrow>
                 Inr (t1 - 10 \<le> n \<and> n \<le> t2 + 10 \<and>
                      py_lower (hm (passhash hm) (py_str n)) = py_lower sign)
             | _ \<Rightarrow> Inr False)
       | _ \<Rightarrow> Inr False)"

section \<open>The hub's state\<close>

text \<open>
  A connection is an opaque handle. The three dicts keep Python's insertion order;
  \<^verbatim>\<open>controllers\<close> is a Python set, held as a list without duplicates (\<open>List.insert\<close>,
  \<open>removeAll\<close>), whose order stands for the set's unspecified iteration order.
\<close>

type_synonym conn = nat

record hub =
  device_table :: "(key \<times> json) list"
  device_links :: "(key \<times> conn) list"
  device_links_map :: "(conn \<times> json) list"
  controllers :: "conn list"

definition init_hub :: hub where
  "init_hub = \<lparr>device_table = [], device_links = [], device_links_map = [], controllers = []\<rparr>"

text \<open>
  What a handler passes to \<^verbatim>\<open>json.dumps\<close> and sends: a dict of JSON values, or the reply
  \<^verbatim>\<open>{'type': 'control/devices', 'body': device_table}\<close>, whose body is the table itself.
\<close>

datatype out_msg = OutJson json | OutDevices "(key \<times> json) list"

type_synonym sends = "(conn \<times> out_msg) list"

definition app_state_request :: out_msg where
  "app_state_request = OutJson (JObj [(''type'', JStr ''app/state''), (''body'', JStr '''')])"

definition add_controller :: "conn \<Rightarrow> hub \<Rightarrow> hub" where
  "add_controller c s = s\<lparr>controllers := List.insert c (controllers s)\<rparr>"

section \<open>The message router\<close>

text \<open>
  The dict a command is forwarded as:
  \<^verbatim>\<open>{'type': b['type'], 'body': b['body'] if 'body' in b else ''}\<close>.
\<close>

definition command_msg :: "json \<Rightarrow> py_exc + json" where
  "command_msg b =
     bind_exc (getitem b ''type'') (\<lambda>ty.
     bind_exc (py_in ''body'' b) (\<lambda>has.
     bind_exc (if has then getitem b ''body'' else Inr (JStr '''')) (\<lambda>bd.
     Inr (JObj [(''type'', ty), (''body'', bd)]))))"

text \<open>\<^verbatim>\<open>device_links[udid]\<close>: TypeError for an unhashable udid, KeyError for an unknown one.\<close>

definition link_of :: "hub \<Rightarrow> json \<Rightarrow> py_exc + conn" where
  "link_of s udid = bind_exc (key_of udid) (\<lambda>k. dict_get (device_links s) k)"

text \<open>
  \<^verbatim>\<open>control/command\<close>, from \<^verbatim>\<open>body = data['body']\<close> on. The list of sends is built
  whole (each target looked up, each message made) before \<^verbatim>\<open>asyncio.gather\<close> starts any
  of them: an exception while it is built leaves nothing sent.
\<close>

definition command_sends :: "hub \<Rightarrow> json \<Rightarrow> py_exc + sends" where
  "command_sends s data =
     bind_exc (getitem data ''body'') (\<lambda>body.
     bind_exc (getitem body ''devices'') (\<lambda>devices.
     bind_exc (py_iter devices) (\<lambda>udids.
     map_exc (\<lambda>udid.
         bind_exc (link_of s udid) (\<lambda>dev.
         bind_exc (command_msg body) (\<lambda>m. Inr (dev, OutJson m))))
       udids)))"

text \<open>\<^verbatim>\<open>control/commands\<close>: for each udid, for each command, in that order.\<close>

definition commands_sends :: "hub \<Rightarrow> json \<Rightarrow> py_exc + sends" where
  "commands_sends s data =
     bind_exc (getitem data ''body'') (\<lambda>body.
     bind_exc (getitem body ''devices'') (\<lambda>devices.
     bind_exc (getitem body ''commands'') (\<lambda>commands.
     bind_exc (py_iter devices) (\<lambda>udids.
     bind_exc (map_exc (\<lambda>udid.
         bind_exc (py_iter commands) (\<lambda>cmds.
         map_exc (\<lambda>cmd.
             bind_exc (link_of s udid) (\<lambda>dev.
             bind_exc (command_msg cmd) (\<lambda>m. Inr (dev, OutJson m))))
           cmds))
       udids) (\<lambda>per_udid.
     Inr (concat per_udid))))))"

text \<open>
  \<^verbatim>\<open>app/state\<close>: the three assignments. The first raises TypeError for an unhashable
  udid, before anything is stored.
\<close>

definition register :: "hub \<Rightarrow> conn \<Rightarrow> json \<Rightarrow> py_exc + hub" where
  "register s c data =
     bind_exc (getitem data ''body'') (\<lambda>body.
     bind_exc (getitem body ''system'') (\<lambda>system.
     bind_exc (getitem system ''udid'') (\<lambda>udid.
     bind_exc (key_of udid) (\<lambda>k.
     Inr (s\<lparr>device_links := AList.update k c (device_links s),
             device_links_map := AList.update c udid (device_links_map s),
             device_table := AList.update k body (device_table s)\<rparr>)))))"

text \<open>
  The relay at the end of the handler. A result is the new state, the messages handed to
  \<^verbatim>\<open>asyncio.gather\<close> (or sent directly), and the exception raised, if any. The sends are
  those the handler issues, in the order it creates them; a send that fails in the
  transport is outside the model, and changes no state.
\<close>

type_synonym outcome = "hub \<times> sends \<times> py_exc option"

definition relay :: "hub \<Rightarrow> conn \<Rightarrow> json \<Rightarrow> outcome" where
  "relay s c data =
     (if length (controllers s) > 0 then
        (case map_of (device_links_map s) c of
           None \<Rightarrow> (s, [], None)
         | Some udid \<Rightarrow>
             (case setitem data ''udid'' udid of
                Inl e \<Rightarrow> (s, [], Some e)
              | Inr data' \<Rightarrow> (s, map (\<lambda>ctl. (ctl, OutJson data')) (controllers s), None)))
      else (s, [], None))"

text \<open>
  The four authenticated branches share their head: \<^verbatim>\<open>is_data_valid\<close> (a drop when it
  is false, an exception when it raises), then \<^verbatim>\<open>controllers.add(websocket)\<close>, then the
  sends of the branch, computed in the state with the sender added.
\<close>

definition authed :: "hmac \<Rightarrow> int \<Rightarrow> int \<Rightarrow> hub \<Rightarrow> conn \<Rightarrow> json \<Rightarrow> (hub \<Rightarrow> py_exc + sends) \<Rightarrow> outcome" where
  "authed hm t1 t2 s c data branch =
     (case is_data_valid hm t1 t2 data of
        Inl e \<Rightarrow> (s, [], Some e)
      | Inr ok \<Rightarrow>
          if \<not> ok then (s, [], None)
          else (let s' = add_controller c s
                in case branch s' of
                     Inl e \<Rightarrow> (s', [], Some e)
                   | Inr out \<Rightarrow> (s', out, None)))"

text \<open>
  The body of the inner \<^verbatim>\<open>try\<close> of \<^verbatim>\<open>handle_connection\<close>, for one decoded message.
  The \<^verbatim>\<open>control/devices\<close> branch prints \<^verbatim>\<open>data['ts']\<close> before it authenticates.
\<close>

definition route :: "hmac \<Rightarrow> int \<Rightarrow> int \<Rightarrow> hub \<Rightarrow> conn \<Rightarrow> json \<Rightarrow> outcome" where
  "route hm t1 t2 s c data =
     (case getitem data ''type'' of
        Inl e \<Rightarrow> (s, [], Some e)
      | Inr ty \<Rightarrow>
          if ty = JStr ''control/devices'' then
            (case getitem data ''ts'' of
               Inl e \<Rightarrow> (s, [], Some e)
             | Inr _ \<Rightarrow>
                 authed hm t1 t2 s c data (\<lambda>s'. Inr [(c, OutDevices (device_table s'))]))
          else if ty = JStr ''control/refresh'' then
            authed hm t1 t2 s c data
              (\<lambda>s'. Inr (map (\<lambda>kv. (snd kv, app_state_request)) (device_links s')))
          else if ty = JStr ''control/command'' then
            authed hm t1 t2 s c data (\<lambda>s'. command_sends s' data)
          else if ty = JStr ''control/commands'' then
            authed hm t1 t2 s c data (\<lambda>s'. commands_sends s' data)
          else if ty = JStr ''app/state'' then
            (case register s c data of
               Inl e \<Rightarrow> (s, [], Some e)
             | Inr s' \<Rightarrow> relay s' c data)
          else relay s c data)"

text \<open>
  One frame of the \<^verbatim>\<open>async for\<close> loop. \<^verbatim>\<open>json.loads\<close> is the parameter \<open>loads\<close>. A binary
  frame is skipped. JSONDecodeError is answered with the error reply; any other
  exception of \<^verbatim>\<open>json.loads\<close> leaves the loop. An exception of \<open>route\<close> is caught by
  \<^verbatim>\<open>except Exception\<close> and printed. The third component is the exception that leaves the
  loop and ends the handler.
\<close>

datatype frame = Binary string | Text string

type_synonym loader = "string \<Rightarrow> py_exc + json"

definition error_reply :: "string \<Rightarrow> out_msg" where
  "error_reply message =
     OutJson (JObj [(''error'', JStr ''bad json''), (''type'', JStr ''error''),
                    (''body'', JStr message)])"

definition handle_message :: "loader \<Rightarrow> hmac \<Rightarrow> int \<Rightarrow> int \<Rightarrow> hub \<Rightarrow> conn \<Rightarrow> frame \<Rightarrow> outcome" where
  "handle_message loads hm t1 t2 s c fr =
     (case fr of
        Binary _ \<Rightarrow> (s, [], None)
      | Text message \<Rightarrow>
          (case loads message of
             Inl e \<Rightarrow>
               if e = JSONDecodeError then (s, [(c, error_reply message)], None)
               else (s, [], Some e)
           | Inr data \<Rightarrow>
               (case route hm t1 t2 s c data of (s', out, _) \<Rightarrow> (s', out, None))))"

section \<open>The close handler and the status poller\<close>

text \<open>
  The \<^verbatim>\<open>except ConnectionClosed\<close> block. The three \<^verbatim>\<open>del\<close> run in the source's order; a
  KeyError of one of them leaves the later ones undone and the broadcast unsent.
\<close>

definition disconnect_msg :: "json \<Rightarrow> out_msg" where
  "disconnect_msg udid = OutJson (JObj [(''type'', JStr ''device/disconnect''), (''body'', udid)])"

definition on_close :: "hub \<Rightarrow> conn \<Rightarrow> outcome" where
  "on_close s c =
     (if c \<in> set (controllers s) then (s\<lparr>controllers := removeAll c (controllers s)\<rparr>, [], None)
      else
        (case map_of (device_links_map s) c of
           None \<Rightarrow> (s, [], None)
         | Some udid \<Rightarrow>
             (case key_of udid of
                Inl e \<Rightarrow> (s, [], Some e)
              | Inr k \<Rightarrow>
                  (case dict_del k (device_table s) of
                     Inl e \<Rightarrow> (s, [], Some e)
                   | Inr table' \<Rightarrow>
                       (let s1 = s\<lparr>device_table := table'\<rparr>
                        in case dict_del k (device_links s1) of
                             Inl e \<Rightarrow> (s1, [], Some e)
                           | Inr links' \<Rightarrow>
                               (let s2 = s1\<lparr>device_links := links',
                                            device_links_map := AList.delete c (device_links_map s1)\<rparr>
                                in (s2,
                                    if length (controllers s2) > 0
                                    then map (\<lambda>ctl. (ctl, disconnect_msg udid)) (controllers s2)
                                    else [],
                                    None)))))))"

text \<open>
  How a connection ends. The cleanup stands in the \<^verbatim>\<open>except ConnectionClosed\<close> block
  alone. The iterator of the websockets library ends \<^verbatim>\<open>async for\<close> without an exception
  when the peer closes with code 1000 or 1001 (a clean close), and raises ConnectionClosed
  on every other close; so after a clean close the handler returns and nothing of the
  state is touched.
\<close>

datatype closing = CleanClose | AbnormalClose

definition connection_closed :: "hub \<Rightarrow> conn \<Rightarrow> closing \<Rightarrow> outcome" where
  "connection_closed s c how =
     (case how of
        CleanClose \<Rightarrow> (s, [], None)
      | AbnormalClose \<Rightarrow> on_close s c)"

text \<open>\<^verbatim>\<open>send_status_request_to_all_devices\<close>, run by the timer.\<close>

definition send_status_request_to_all_devices :: "hub \<Rightarrow> outcome" where
  "send_status_request_to_all_devices s =
     (if length (device_links s) = 0 then (s, [], None)
      else (s, map (\<lambda>kv. (snd kv, app_state_request)) (device_links s), None))"

section \<open>Runs of the hub\<close>

text \<open>
  No handler awaits between its reads and writes of the state, so a run of the hub is a
  sequence of whole steps: a frame from a connection (with the two clock values its
  authentication reads), the close of a connection (clean or abnormal), or a tick of the
  status timer.
\<close>

datatype event = Message conn int int frame | Close conn closing | Tick

definition step :: "loader \<Rightarrow> hmac \<Rightarrow> hub \<Rightarrow> event \<Rightarrow> outcome" where
  "step loads hm s ev =
     (case ev of
        Message c t1 t2 fr \<Rightarrow> handle_message loads hm t1 t2 s c fr
      | Close c how \<Rightarrow> connection_closed s c how
      | Tick \<Rightarrow> send_status_request_to_all_devices s)"

definition hub_after :: "loader \<Rightarrow> hmac \<Rightarrow> event list \<Rightarrow> hub" where
  "hub_after loads hm evs = foldl (\<lambda>s ev. fst (step loads hm s ev)) init_hub evs"

text \<open>The two key sets of the registry: those of \<^verbatim>\<open>device_links\<close> and of \<^verbatim>\<open>device_table\<close>.\<close>

definition keys_agree :: "hub \<Rightarrow> bool" where
  "keys_agree s = (fst ` set (device_links s) = fst ` set (device_table s))"

section \<open>Sample frames\<close>

text \<open>
  The examples below run the hub on concrete frames. \<open>hmac_sha256_tab\<close> holds the values
  of HMAC-SHA256 (hex digest) at the two inputs they need: the password hash, and the
  signature of the timestamp 1700000000 under it. \<open>json_loads_tab\<close> holds the values
  of \<^verbatim>\<open>json.loads\<close> on the frames; every other frame of the examples is not JSON.
\<close>

definition hmac_sha256_tab :: hmac where
  "hmac_sha256_tab k m =
     (if k = ''XXTouch'' \<and> m = ''12345678''
      then ''d65ab6ee31ff1f6a5ced1ed6cce58127d000cb957854b382983ba07c89acb835''
      else if k = ''d65ab6ee31ff1f6a5ced1ed6cce58127d000cb957854b382983ba07c89acb835'' \<and>
              m = ''1700000000''
      then ''e3ac0c85892f43099e12f507a31098351cfb0c7a4a9e1ede093fef91099a3f91''
      else [])"

definition sample_sign :: string where
  "sample_sign = ''e3ac0c85892f43099e12f507a31098351cfb0c7a4a9e1ede093fef91099a3f91''"

definition frame_state_U :: string where
  \<open>frame_state_U = ''{"type":"app/state","body":{"system":{"udid":"U"}}}''\<close>

definition frame_state_W :: string where
  \<open>frame_state_W = ''{"type":"app/state","body":{"system":{"udid":"W"}}}''\<close>

definition frame_log :: string where
  \<open>frame_log = ''{"type":"script/log","body":"done"}''\<close>

definition frame_devices :: string where
  \<open>frame_devices = ''{"ts":1700000000,"sign":"e3ac0c85892f43099e12f507a31098351cfb0c7a4a9e1ede093fef91099a3f91","type":"control/devices"}''\<close>

definition frame_refresh_unsigned :: string where
  \<open>frame_refresh_unsigned = ''{"ts":1700000000,"sign":"00","type":"control/refresh"}''\<close>

definition frame_command_UV :: string where
  \<open>frame_command_UV = ''{"ts":1700000000,"sign":"e3ac0c85892f43099e12f507a31098351cfb0c7a4a9e1ede093fef91099a3f91","type":"control/command","body":{"devices":["U","V"],"type":"touch/down","body":{"x":1,"y":2}}}''\<close>

definition frame_commands_UV :: string where
  \<open>frame_commands_UV = ''{"ts":1700000000,"sign":"e3ac0c85892f43099e12f507a31098351cfb0c7a4a9e1ede093fef91099a3f91","type":"control/commands","body":{"devices":["U","V"],"commands":[{"type":"touch/down","body":{"x":1,"y":2}},{"type":"touch/up"}]}}''\<close>

definition frame_empty_object :: string where
  "frame_empty_object = ''{}''"

definition state_body_U :: json where
  "state_body_U = JObj [(''system'', JObj [(''udid'', JStr ''U'')])]"

definition state_body_W :: json where
  "state_body_W = JObj [(''system'', JObj [(''udid'', JStr ''W'')])]"

definition touch_down :: json where
  "touch_down = JObj [(''type'', JStr ''touch/down''), (''body'', JObj [(''x'', JInt 1), (''y'', JInt 2)])]"

definition signed_request :: "string \<Rightarrow> (string \<times> json) list \<Rightarrow> json" where
  "signed_request ty rest =
     JObj ([(''ts'', JInt 1700000000), (''sign'', JStr sample_sign), (''type'', JStr ty)] @ rest)"

definition json_loads_tab :: loader where
  "json_loads_tab message =
     (if message = frame_state_U then
        Inr (JObj [(''type'', JStr ''app/state''), (''body'', state_body_U)])
      else if message = frame_state_W then
        Inr (JObj [(''type'', JStr ''app/state''), (''body'', state_body_W)])
      else if message = frame_log then
        Inr (JObj [(''type'', JStr ''script/log''), (''body'', JStr ''done'')])
      else if message = frame_devices then
        Inr (signed_request ''control/devices'' [])
      else if message = frame_refresh_unsigned then
        Inr (JObj [(''ts'', JInt 1700000000), (''sign'', JStr ''00''),
                   (''type'', JStr ''control/refresh'')])
      else if message = frame_command_UV then
        Inr (signed_request ''control/command''
               [(''body'', JObj [(''devices'', JArr [JStr ''U'', JStr ''V'']),
                                 (''type'', JStr ''touch/down''),
                                 (''body'', JObj [(''x'', JInt 1), (''y'', JInt 2)])])])
      else if message = frame_commands_UV then
        Inr (signed_request ''control/commands''
               [(''body'', JObj [(''devices'', JArr [JStr ''U'', JStr ''V'']),
                                 (''commands'', JArr [touch_down, JObj [(''type'', JStr ''touch/up'')]])])])
      else if message = frame_empty_object then Inr (JObj [])
      else Inl JSONDecodeError)"

text \<open>
  Sample states: \<open>hub_U\<close> after connection 1 has reported as device \<^verbatim>\<open>U\<close>; \<open>hub_watched\<close> the
  same with connection 3 a controller. \<open>stale_run\<close>: connections 1 and 2 both report as
  \<^verbatim>\<open>U\<close>, connection 3 becomes a controller, connection 1 closes abnormally; \<open>hub_stale\<close>
  is the state it ends in. \<open>watched_run\<close> is the run that ends in \<open>hub_watched\<close>.
  \<open>clean_close_run\<close>: connections 1 and 2 both report as \<^verbatim>\<open>U\<close>, connection 1 closes
  cleanly. \<open>hub_UW\<close>: connection 1 has reported as \<^verbatim>\<open>U\<close> and connection 2 as \<^verbatim>\<open>W\<close>.
  \<open>second_udid_run\<close>: from there connection 2 reports as \<^verbatim>\<open>U\<close> and connection 1 closes
  abnormally.
\<close>

definition hub_U :: hub where
  "hub_U = \<lparr>device_table = [(KStr ''U'', state_body_U)], device_links = [(KStr ''U'', 1)],
            device_links_map = [(1, JStr ''U'')], controllers = []\<rparr>"

definition hub_watched :: hub where
  "hub_watched = hub_U\<lparr>controllers := [3]\<rparr>"

definition stale_run :: "event list" where
  "stale_run =
     [Message 1 1700000000 1700000000 (Text frame_state_U),
      Message 2 1700000000 1700000000 (Text frame_state_U),
      Message 3 1700000000 1700000000 (Text frame_devices),
      Close 1 AbnormalClose]"

definition hub_stale :: hub where
  "hub_stale = \<lparr>device_table = [], device_links = [],
                device_links_map = [(2, JStr ''U'')], controllers = [3]\<rparr>"

definition watched_run :: "event list" where
  "watched_run =
     [Message 1 1700000000 1700000000 (Text frame_state_U),
      Message 3 1700000000 1700000000 (Text frame_devices)]"

definition clean_close_run :: "event list" where
  "clean_close_run =
     [Message 1 1700000000 1700000000 (Text frame_state_U),
      Message 2 1700000000 1700000000 (Text frame_state_U),
      Close 1 CleanClose]"

definition hub_UW :: hub where
  "hub_UW = \<lparr>device_table = [(KStr ''U'', state_body_U), (KStr ''W'', state_body_W)],
             device_links = [(KStr ''U'', 1), (KStr ''W'', 2)],
             device_links_map = [(1, JStr ''U''), (2, JStr ''W'')], controllers = []\<rparr>"

definition second_udid_run :: "event list" where
  "second_udid_run =
     [Message 1 1700000000 1700000000 (Text frame_state_U),
      Message 2 1700000000 1700000000 (Text frame_state_W),
      Message 2 1700000000 1700000000 (Text frame_state_U),
      Close 1 AbnormalClose]"

section \<open>Evaluating the samples\<close>

lemmas frame_defs = frame_state_U_def frame_state_W_def frame_log_def frame_devices_def frame_refresh_unsigned_def
  frame_command_UV_def frame_commands_UV_def frame_empty_object_def

lemma py_str_sample: "py_str 1700000000 = ''1700000000''"
  by (simp add: py_str_def str_nat.simps digit_char_def char_of_def bit_Suc_0_iff)

lemma passhash_sample:
  "passhash hmac_sha256_tab = ''d65ab6ee31ff1f6a5ced1ed6cce58127d000cb957854b382983ba07c89acb835''"
  by (simp add: passhash_def hmac_sha256_tab_def serv_pass_def py_lower_def lower_char_def)

lemma sign_sample: "hmac_sha256_tab (passhash hmac_sha256_tab) (py_str 1700000000) = sample_sign"
  by (simp add: py_str_sample passhash_sample hmac_sha256_tab_def sample_sign_def)

lemma signed_request_valid:
  "is_data_valid hmac_sha256_tab 1700000000 1700000000 (signed_request ty rest) = Inr True"
  by (simp add: is_data_valid_def signed_request_def bind_exc_def sign_sample)

lemma signed_request_type: "getitem (signed_request ty rest) ''type'' = Inr (JStr ty)"
  by (simp add: signed_request_def)

lemma signed_request_ts: "getitem (signed_request ty rest) ''ts'' = Inr (JInt 1700000000)"
  by (simp add: signed_request_def)

lemma signed_request_body:
  "getitem (signed_request ty [(''body'', b)]) ''body'' = Inr b"
  by (simp add: signed_request_def)

lemma loads_state_U:
  "json_loads_tab frame_state_U = Inr (JObj [(''type'', JStr ''app/state''), (''body'', state_body_U)])"
  by (simp add: json_loads_tab_def)

lemma loads_state_W:
  "json_loads_tab frame_state_W = Inr (JObj [(''type'', JStr ''app/state''), (''body'', state_body_W)])"
  by (simp add: json_loads_tab_def frame_defs)

lemma loads_log:
  "json_loads_tab frame_log = Inr (JObj [(''type'', JStr ''script/log''), (''body'', JStr ''done'')])"
  by (simp add: json_loads_tab_def frame_defs)

lemma loads_devices: "json_loads_tab frame_devices = Inr (signed_request ''control/devices'' [])"
  by (simp add: json_loads_tab_def frame_defs)

lemma loads_refresh_unsigned:
  "json_loads_tab frame_refresh_unsigned =
     Inr (JObj [(''ts'', JInt 1700000000), (''sign'', JStr ''00''), (''type'', JStr ''control/refresh'')])"
  by (simp add: json_loads_tab_def frame_defs)

lemma loads_command_UV:
  "json_loads_tab frame_command_UV =
     Inr (signed_request ''control/command''
            [(''body'', JObj [(''devices'', JArr [JStr ''U'', JStr ''V'']),
                              (''type'', JStr ''touch/down''),
                              (''body'', JObj [(''x'', JInt 1), (''y'', JInt 2)])])])"
  by (simp add: json_loads_tab_def frame_defs touch_down_def)

lemma loads_commands_UV:
  "json_loads_tab frame_commands_UV =
     Inr (signed_request ''control/commands''
            [(''body'', JObj [(''devices'', JArr [JStr ''U'', JStr ''V'']),
                              (''commands'', JArr [touch_down, JObj [(''type'', JStr ''touch/up'')]])])])"
  by (simp add: json_loads_tab_def frame_defs)

lemma loads_empty_object: "json_loads_tab frame_empty_object = Inr (JObj [])"
  by (simp add: json_loads_tab_def frame_defs)

lemma loads_not_json: "json_loads_tab ''hello'' = Inl JSONDecodeError"
  by (simp add: json_loads_tab_def frame_defs)

section \<open>The decimal string of a number\<close>

text \<open>\<open>str_nat\<close> writes a number in decimal digits.\<close>

lemma digit_char_value: "d < 10 \<Longrightarrow> (of_char (digit_char d) :: nat) - 48 = d"
  by (simp add: digit_char_def)

lemma str_nat_decimal: "decimal_value (str_nat n) = n"
proof (induction n rule: str_nat.induct)
  case (1 n)
  show ?case
  proof (cases "n < 10")
    case True
    then show ?thesis
      by (subst str_nat.simps) (simp add: decimal_value_def digit_char_value)
  next
    case False
    then have "decimal_value (str_nat (n div 10)) = n div 10"
      using 1 by simp
    then show ?thesis
      using False
      by (subst str_nat.simps) (simp add: decimal_value_def digit_char_value)
  qed
qed

lemma str_nat_digits: "set (str_nat n) \<subseteq> digit_char ` {..<10}"
proof (induction n rule: str_nat.induct)
  case (1 n)
  show ?case
  proof (cases "n < 10")
    case True
    then show ?thesis by (subst str_nat.simps) simp
  next
    case False
    then have "set (str_nat (n div 10)) \<subseteq> digit_char ` {..<10}"
      using 1 by simp
    then show ?thesis
      using False by (subst str_nat.simps) simp
  qed
qed

section \<open>Facts about the handlers\<close>

lemmas route_defs = handle_message_def route_def authed_def relay_def register_def
  command_sends_def commands_sends_def command_msg_def link_of_def dict_get_def bind_exc_def
  add_controller_def app_state_request_def error_reply_def

lemmas sample_facts = loads_state_U loads_state_W loads_log loads_devices loads_refresh_unsigned
  loads_command_UV loads_commands_UV loads_empty_object loads_not_json
  signed_request_valid signed_request_type signed_request_ts signed_request_body

lemma handle_message_text:
  "loads message = Inr data \<Longrightarrow>
   handle_message loads hm t1 t2 s c (Text message) =
     (fst (route hm t1 t2 s c data), fst (snd (route hm t1 t2 s c data)), None)"
  by (simp add: handle_message_def split: prod.splits)

lemma relay_state: "fst (relay s c data) = s"
  by (simp add: relay_def split: option.splits sum.splits)

lemma authed_state:
  "fst (authed hm t1 t2 s c data branch) = s \<or>
   fst (authed hm t1 t2 s c data branch) = add_controller c s"
  by (simp add: authed_def Let_def split: sum.splits)

lemma authed_rejected:
  "is_data_valid hm t1 t2 data \<noteq> Inr True \<Longrightarrow>
   \<exists>e. authed hm t1 t2 s c data branch = (s, [], e)"
  by (cases "is_data_valid hm t1 t2 data") (auto simp: authed_def)


lemma register_Inr:
  assumes "register s c data = Inr s'"
  obtains body system udid k where
    "getitem data ''body'' = Inr body" "getitem body ''system'' = Inr system"
    "getitem system ''udid'' = Inr udid" "key_of udid = Inr k"
    "s' = s\<lparr>device_links := AList.update k c (device_links s),
              device_links_map := AList.update c udid (device_links_map s),
              device_table := AList.update k body (device_table s)\<rparr>"
  using assms by (auto simp: register_def bind_exc_def split: sum.splits)

lemma keys_update: "fst ` set (AList.update k v al) = insert k (fst ` set al)"
  by (simp add: AList.dom_update)

lemma keys_delete: "fst ` set (AList.delete k al) = fst ` set al - {k}"
  by (induction al) auto

lemma map_of_delete_same: "map_of (AList.delete k al) k = None"
  by (simp add: AList.delete_conv')

lemma map_of_update_same: "map_of (AList.update k v al) k = Some v"
  by (simp add: AList.update_conv')

lemma map_of_update_other: "k' \<noteq> k \<Longrightarrow> map_of (AList.update k v al) k' = map_of al k'"
  by (simp add: AList.update_conv')

lemma hub_after_Nil: "hub_after loads hm [] = init_hub"
  by (simp add: hub_after_def)

lemma hub_after_snoc:
  "hub_after loads hm (evs @ [ev]) = fst (step loads hm (hub_after loads hm evs) ev)"
  by (simp add: hub_after_def)

text \<open>The sample states are the states the sample runs end in.\<close>

lemma run_state_U:
  "hub_after json_loads_tab hmac_sha256_tab
     [Message 1 1700000000 1700000000 (Text frame_state_U)] = hub_U"
  by (simp add: hub_after_def step_def init_hub_def hub_U_def route_defs sample_facts
      state_body_U_def)

lemma run_watched: "hub_after json_loads_tab hmac_sha256_tab watched_run = hub_watched"
  by (simp add: hub_after_def watched_run_def step_def init_hub_def hub_watched_def hub_U_def
      route_defs sample_facts state_body_U_def)

lemma run_UW:
  "hub_after json_loads_tab hmac_sha256_tab
     [Message 1 1700000000 1700000000 (Text frame_state_U),
      Message 2 1700000000 1700000000 (Text frame_state_W)] = hub_UW"
  by (simp add: hub_after_def step_def init_hub_def hub_UW_def route_defs sample_facts
      state_body_U_def state_body_W_def)

lemma run_stale: "hub_after json_loads_tab hmac_sha256_tab stale_run = hub_stale"
  by (simp add: hub_after_def stale_run_def step_def init_hub_def hub_stale_def route_defs
      sample_facts state_body_U_def connection_closed_def on_close_def dict_del_def
      AList.delete_eq)

text \<open>The controller set never holds a connection twice.\<close>

lemma step_distinct:
  "distinct (controllers s) \<Longrightarrow> distinct (controllers (fst (step loads hm s ev)))"
proof (cases ev)
  case (Message c t1 t2 fr)
  assume d: "distinct (controllers s)"
  have r: "distinct (controllers (fst (route hm t1 t2 s c data)))" for data
  proof -
    have a: "distinct (controllers (fst (authed hm t1 t2 s c data branch)))" for branch
      using authed_state [of hm t1 t2 s c data branch] d
      by (auto simp: add_controller_def)
    have g: "register s c data = Inr s' \<Longrightarrow> controllers s' = controllers s" for s'
      by (erule register_Inr) simp
    show ?thesis
      using a d g by (auto simp: route_def relay_state split: sum.splits)
  qed
  show ?thesis
  proof (cases fr)
    case (Binary b)
    then show ?thesis using Message d by (simp add: step_def handle_message_def)
  next
    case (Text message)
    then show ?thesis
      using Message d r
      by (cases "loads message") (simp_all add: step_def handle_message_text, simp add: handle_message_def)
  qed
next
  case (Close c how)
  assume "distinct (controllers s)"
  then show ?thesis
    using Close
    by (simp add: step_def connection_closed_def on_close_def dict_del_def Let_def
        distinct_removeAll split: option.splits sum.splits closing.splits)
next
  case Tick
  assume "distinct (controllers s)"
  then show ?thesis using Tick by (simp add: step_def send_status_request_to_all_devices_def)
qed

lemma controllers_distinct: "distinct (controllers (hub_after loads hm evs))"
proof (induction evs rule: rev_induct)
  case Nil
  show ?case by (simp add: hub_after_Nil init_hub_def)
next
  case (snoc ev evs)
  then show ?case by (simp add: hub_after_snoc step_distinct)
qed

section \<open>The authenticator accepts exactly the signed requests in the window\<close>

text \<open>
  Claim C1. \<^verbatim>\<open>is_data_valid\<close> returns \<^verbatim>\<open>True\<close> exactly when \<^verbatim>\<open>ts\<close> is an int, \<^verbatim>\<open>sign\<close> is a
  string, \<^verbatim>\<open>ts\<close> is at least the clock minus 10 and at most the clock plus 10, and
  \<^verbatim>\<open>sign\<close>, lower-cased, is the lower-cased hex digest of HMAC-SHA256 keyed with the
  password hash over the decimal string of \<^verbatim>\<open>ts\<close>. The clock is read once for each bound
  (\<open>t1\<close>, \<open>t2\<close>); the claim's \<open>now\<close> is their common value. At one clock value \<open>now\<close>, the
  rightly signed request is accepted at \<open>now - 10\<close> and at \<open>now + 10\<close>, and every request
  is rejected at \<open>now - 11\<close> and at \<open>now + 11\<close>. The function is a value of its
  arguments and the clock alone: it neither takes nor returns the hub's state.
\<close>

theorem is_data_valid_window:
  "(is_data_valid hm t1 t2 data = Inr True) =
     (\<exists>n sign. getitem data ''ts'' = Inr (JInt n) \<and> getitem data ''sign'' = Inr (JStr sign) \<and>
        t1 - 10 \<le> n \<and> n \<le> t2 + 10 \<and>
        py_lower sign = py_lower (hm (passhash hm) (py_str n)))
   \<and> is_data_valid hm now now
        (JObj [(''ts'', JInt (now - 10)), (''sign'', JStr (hm (passhash hm) (py_str (now - 10))))]) = Inr True
   \<and> is_data_valid hm now now
        (JObj [(''ts'', JInt (now + 10)), (''sign'', JStr (hm (passhash hm) (py_str (now + 10))))]) = Inr True
   \<and> is_data_valid hm now now (JObj [(''ts'', JInt (now - 11)), (''sign'', JStr sg)]) = Inr False
   \<and> is_data_valid hm now now (JObj [(''ts'', JInt (now + 11)), (''sign'', JStr sg)]) = Inr False"
proof -
  have iff: "(is_data_valid hm t1 t2 data = Inr True) =
     (\<exists>n sign. getitem data ''ts'' = Inr (JInt n) \<and> getitem data ''sign'' = Inr (JStr sign) \<and>
        t1 - 10 \<le> n \<and> n \<le> t2 + 10 \<and>
        py_lower sign = py_lower (hm (passhash hm) (py_str n)))"
    by (auto simp: is_data_valid_def bind_exc_def split: sum.splits json.splits)
  show ?thesis
    unfolding iff by (simp add: is_data_valid_def bind_exc_def)
qed

section \<open>An unknown udid in a command's device list\<close>

lemma map_exc_fails: "x \<in> set xs \<Longrightarrow> f x = Inl e \<Longrightarrow> \<exists>e'. map_exc f xs = Inl e'"
  by (induction xs) (auto split: sum.splits)

lemma command_sends_unknown_udid:
  assumes "getitem data ''body'' = Inr body" and "getitem body ''devices'' = Inr devices"
    and "py_iter devices = Inr udids" and "udid \<in> set udids" and "link_of s udid = Inl e"
  shows "\<exists>e'. command_sends s data = Inl e'"
proof -
  have "\<exists>e'. map_exc (\<lambda>udid. bind_exc (link_of s udid) (\<lambda>dev.
          bind_exc (command_msg body) (\<lambda>m. Inr (dev, OutJson m)))) udids = Inl e'"
    using assms(4,5) by (intro map_exc_fails [where x = udid and e = e]) (simp_all add: bind_exc_def)
  then show ?thesis using assms(1-3) by (simp add: command_sends_def bind_exc_def)
qed

text \<open>
  Whatever else the list names, one udid without a connection entry leaves a
  \<^verbatim>\<open>control/command\<close> request without any send.
\<close>

lemma command_unknown_udid_nothing_sent:
  assumes "loads message = Inr data"
    and "getitem data ''type'' = Inr (JStr ''control/command'')"
    and "getitem data ''body'' = Inr body" and "getitem body ''devices'' = Inr devices"
    and "py_iter devices = Inr udids" and "udid \<in> set udids" and "link_of s udid = Inl e"
  shows "fst (snd (handle_message loads hm t1 t2 s c (Text message))) = []"
proof -
  have "link_of (add_controller c s) udid = Inl e"
    using assms(7) by (simp add: link_of_def add_controller_def)
  then obtain e' where "command_sends (add_controller c s) data = Inl e'"
    using command_sends_unknown_udid [OF assms(3-6)] by blast
  then have "fst (snd (route hm t1 t2 s c data)) = []"
    using assms(2) by (simp add: route_def authed_def split: sum.splits)
  then show ?thesis using assms(1) by (simp add: handle_message_text)
qed

text \<open>
  Claim C2. The claim: when \<^verbatim>\<open>body.devices\<close> of a \<^verbatim>\<open>control/command\<close> or
  \<^verbatim>\<open>control/commands\<close> request names a registered and an unregistered udid, the command
  still reaches the registered one. The source, on the sample: device \<^verbatim>\<open>U\<close> is registered
  on connection 1, \<^verbatim>\<open>V\<close> is not registered, connection 2 sends a rightly signed request
  for the devices \<^verbatim>\<open>["U", "V"]\<close>. The sender becomes a controller, and nothing is sent to
  connection 1 or to anyone: \<^verbatim>\<open>device_links["V"]\<close> raises KeyError while the list of sends
  is built.
\<close>

theorem unknown_udid_cancels_fanout:
  "map_of (device_links (hub_after json_loads_tab hmac_sha256_tab
       [Message 1 1700000000 1700000000 (Text frame_state_U)])) (KStr ''U'') = Some 1
   \<and> handle_message json_loads_tab hmac_sha256_tab 1700000000 1700000000
       (hub_after json_loads_tab hmac_sha256_tab
          [Message 1 1700000000 1700000000 (Text frame_state_U)])
       2 (Text frame_command_UV)
     = (hub_U\<lparr>controllers := [2]\<rparr>, [], None)
   \<and> handle_message json_loads_tab hmac_sha256_tab 1700000000 1700000000
       (hub_after json_loads_tab hmac_sha256_tab
          [Message 1 1700000000 1700000000 (Text frame_state_U)])
       2 (Text frame_commands_UV)
     = (hub_U\<lparr>controllers := [2]\<rparr>, [], None)"
  unfolding run_state_U
  by (simp add: hub_U_def route_defs sample_facts touch_down_def)

section \<open>The registry's key sets agree\<close>

lemma register_keys_agree:
  assumes "register s c data = Inr s'" and "keys_agree s"
  shows "keys_agree s'"
proof -
  from assms(1) obtain body udid k where
    "s' = s\<lparr>device_links := AList.update k c (device_links s),
              device_links_map := AList.update c udid (device_links_map s),
              device_table := AList.update k body (device_table s)\<rparr>"
    by (rule register_Inr)
  then show ?thesis using assms(2) by (simp add: keys_agree_def keys_update)
qed

lemma add_controller_keys_agree: "keys_agree (add_controller c s) = keys_agree s"
  by (simp add: add_controller_def keys_agree_def)

lemma authed_keys_agree:
  "keys_agree s \<Longrightarrow> keys_agree (fst (authed hm t1 t2 s c data branch))"
  using authed_state [of hm t1 t2 s c data branch] by (auto simp: add_controller_keys_agree)

lemma route_keys_agree:
  "keys_agree s \<Longrightarrow> keys_agree (fst (route hm t1 t2 s c data))"
  by (auto simp: route_def relay_state authed_keys_agree register_keys_agree split: sum.splits)

lemma handle_message_keys_agree:
  assumes that: "keys_agree s"
  shows "keys_agree (fst (handle_message loads hm t1 t2 s c fr))"
proof (cases fr)
  case (Binary b)
  then show ?thesis using that by (simp add: handle_message_def)
next
  case (Text message)
  show ?thesis
  proof (cases "loads message")
    case (Inl e)
    then show ?thesis using Text that by (simp add: handle_message_def)
  next
    case (Inr data)
    then have "fst (handle_message loads hm t1 t2 s c fr) = fst (route hm t1 t2 s c data)"
      using Text by (simp add: handle_message_def split: prod.splits)
    then show ?thesis using that by (simp add: route_keys_agree)
  qed
qed

lemma on_close_keys_agree:
  "keys_agree s \<Longrightarrow> keys_agree (fst (on_close s c))"
  by (simp add: on_close_def keys_agree_def dict_del_def Let_def keys_delete map_of_eq_None_iff
      split: option.splits sum.splits)

lemma step_keys_agree:
  "keys_agree s \<Longrightarrow> keys_agree (fst (step loads hm s ev))"
  by (cases ev)
    (simp_all add: step_def handle_message_keys_agree on_close_keys_agree
      connection_closed_def send_status_request_to_all_devices_def split: closing.splits)

text \<open>
  Claim C3. After every run of the hub (frames, closes and timer ticks in any order),
  the udids that have a connection entry in \<^verbatim>\<open>device_links\<close> are exactly the udids that
  have a snapshot in \<^verbatim>\<open>device_table\<close>: each step that inserts or deletes a key of one
  inserts or deletes it in the other.
\<close>

theorem registry_keys_agree:
  "fst ` set (device_links (hub_after loads hm evs)) =
   fst ` set (device_table (hub_after loads hm evs))"
proof -
  have "keys_agree (hub_after loads hm evs)"
  proof (induction evs rule: rev_induct)
    case Nil
    show ?case by (simp add: hub_after_Nil init_hub_def keys_agree_def)
  next
    case (snoc ev evs)
    then show ?case by (simp add: hub_after_snoc step_keys_agree)
  qed
  then show ?thesis by (simp add: keys_agree_def)
qed

section \<open>The relay of other messages\<close>



section \<open>The device list\<close>



section \<open>The close of a device connection\<close>

text \<open>
  When the udid that the reverse map holds for the closing connection still has its
  snapshot and its connection entry, the three entries go and every controller gets the
  \<^verbatim>\<open>device/disconnect\<close> message once.
\<close>

lemma device_close_removes:
  assumes "c \<notin> set (controllers s)"
    and "map_of (device_links_map s) c = Some udid" and "key_of udid = Inr k"
    and "map_of (device_table s) k = Some body" and "map_of (device_links s) k = Some c'"
  shows "on_close s c =
           (s\<lparr>device_table := AList.delete k (device_table s),
              device_links := AList.delete k (device_links s),
              device_links_map := AList.delete c (device_links_map s)\<rparr>,
            map (\<lambda>ctl. (ctl, disconnect_msg udid)) (controllers s), None)"
  using assms by (simp add: on_close_def dict_del_def Let_def)

text \<open>
  Claim C6. The claim: when a connection outside the controller set that has a registry
  entry closes, its forward, reverse and snapshot entries are removed and every
  controller receives one \<^verbatim>\<open>device/disconnect\<close> message. The source, on the sample:
  connections 1 and 2 have both reported as device \<^verbatim>\<open>U\<close>, connection 3 is a controller,
  and connection 1 has closed abnormally, which has removed the entries of \<^verbatim>\<open>U\<close>. Connection 2 is
  not a controller and the reverse map still holds \<^verbatim>\<open>U\<close> for it. When it closes,
  \<^verbatim>\<open>del device_table[udid]\<close> raises KeyError: the state is left as it was, the reverse
  entry included, and controller 3 is sent nothing.
\<close>

theorem stale_close_raises:
  "3 \<in> set (controllers (hub_after json_loads_tab hmac_sha256_tab stale_run))
   \<and> 2 \<notin> set (controllers (hub_after json_loads_tab hmac_sha256_tab stale_run))
   \<and> map_of (device_links_map (hub_after json_loads_tab hmac_sha256_tab stale_run)) 2 = Some (JStr ''U'')
   \<and> on_close (hub_after json_loads_tab hmac_sha256_tab stale_run) 2 =
        (hub_after json_loads_tab hmac_sha256_tab stale_run, [], Some KeyError)"
  unfolding run_stale by (simp add: hub_stale_def on_close_def dict_del_def)

section \<open>A request that fails authentication\<close>

text \<open>
  Claim C7. A message of one of the four \<^verbatim>\<open>control/*\<close> types for which \<^verbatim>\<open>is_data_valid\<close>
  does not return \<^verbatim>\<open>True\<close> (it returns \<^verbatim>\<open>False\<close>, or raises for a missing field) is
  dropped: nothing is sent to any connection, the state of the hub is what it was, and
  the handler stays in its loop.
\<close>

theorem auth_failure_dropped:
  assumes "loads message = Inr data"
    and "getitem data ''type'' = Inr ty"
    and "ty = JStr ''control/devices'' \<or> ty = JStr ''control/refresh'' \<or>
         ty = JStr ''control/command'' \<or> ty = JStr ''control/commands''"
    and "is_data_valid hm t1 t2 data \<noteq> Inr True"
  shows "handle_message loads hm t1 t2 s c (Text message) = (s, [], None)"
proof -
  have "\<exists>e. route hm t1 t2 s c data = (s, [], e)"
    using assms(2,3) authed_rejected [OF assms(4), of s c]
    by (auto simp: route_def split: sum.splits)
  then show ?thesis using assms(1) by (auto simp: handle_message_text)
qed

theorem auth_failure_dropped_witness:
  "is_data_valid hmac_sha256_tab 1700000000 1700000000
     (JObj [(''ts'', JInt 1700000000), (''sign'', JStr ''00''), (''type'', JStr ''control/refresh'')])
     = Inr False
   \<and> handle_message json_loads_tab hmac_sha256_tab 1700000000 1700000000 hub_watched 2
       (Text frame_refresh_unsigned) = (hub_watched, [], None)"
proof -
  have bad: "is_data_valid hmac_sha256_tab 1700000000 1700000000
     (JObj [(''ts'', JInt 1700000000), (''sign'', JStr ''00''), (''type'', JStr ''control/refresh'')])
     = Inr False"
    by (simp add: is_data_valid_def bind_exc_def sign_sample sample_sign_def py_lower_def)
  show ?thesis
    using auth_failure_dropped [where loads = json_loads_tab and message = frame_refresh_unsigned
        and data = "JObj [(''ts'', JInt 1700000000), (''sign'', JStr ''00''),
                          (''type'', JStr ''control/refresh'')]"
        and ty = "JStr ''control/refresh''" and hm = hmac_sha256_tab
        and ?t1.0 = 1700000000 and ?t2.0 = 1700000000 and s = hub_watched and c = 2,
        OF loads_refresh_unsigned]
      bad
    by simp
qed

section \<open>Frames that are not JSON\<close>


text \<open>
  An exception of \<^verbatim>\<open>json.loads\<close> other than JSONDecodeError (ValueError for an integer
  of too many digits, RecursionError for deep nesting) is caught nowhere: it ends the
  handler, and with it the connection.
\<close>

lemma loads_other_exception_ends_handler:
  "loads message = Inl e \<Longrightarrow> e \<noteq> JSONDecodeError \<Longrightarrow>
   handle_message loads hm t1 t2 s c (Text message) = (s, [], Some e)"
  by (simp add: handle_message_def)




section \<open>The close of a controller\<close>

text \<open>
  When the close raises ConnectionClosed in the handler of a controller, the controller
  is removed from the set and nothing else happens: the three dicts of the registry are
  what they were, and no message is sent.
\<close>

lemma controller_abnormal_close:
  assumes "c \<in> set (controllers s)"
  shows "connection_closed s c AbnormalClose =
           (s\<lparr>controllers := removeAll c (controllers s)\<rparr>, [], None)
         \<and> c \<notin> set (controllers (fst (connection_closed s c AbnormalClose)))
         \<and> device_links (fst (connection_closed s c AbnormalClose)) = device_links s
         \<and> device_links_map (fst (connection_closed s c AbnormalClose)) = device_links_map s
         \<and> device_table (fst (connection_closed s c AbnormalClose)) = device_table s"
  using assms by (simp add: connection_closed_def on_close_def)

text \<open>
  Claim C9. The claim: when a connection of the controller set closes, it is removed
  from the set, so that it receives no further broadcast, and nothing else changes. The
  source, on the sample: connection 1 is device \<^verbatim>\<open>U\<close>, connection 3 is a controller and
  closes cleanly (close code 1000). No exception reaches the handler, so the cleanup of
  the \<^verbatim>\<open>except ConnectionClosed\<close> block does not run: connection 3 is still in the
  controller set, and the next message of device 1 is still relayed to it.
\<close>

theorem clean_close_keeps_controller:
  "3 \<in> set (controllers (hub_after json_loads_tab hmac_sha256_tab watched_run))
   \<and> step json_loads_tab hmac_sha256_tab (hub_after json_loads_tab hmac_sha256_tab watched_run)
        (Close 3 CleanClose)
      = (hub_after json_loads_tab hmac_sha256_tab watched_run, [], None)
   \<and> 3 \<in> set (controllers (hub_after json_loads_tab hmac_sha256_tab
                                 (watched_run @ [Close 3 CleanClose])))
   \<and> handle_message json_loads_tab hmac_sha256_tab 1700000000 1700000000
        (hub_after json_loads_tab hmac_sha256_tab (watched_run @ [Close 3 CleanClose]))
        1 (Text frame_log)
      = (hub_watched,
         [(3, OutJson (JObj [(''type'', JStr ''script/log''), (''body'', JStr ''done''),
                             (''udid'', JStr ''U'')]))],
         None)"
  unfolding hub_after_snoc run_watched
  by (simp add: step_def connection_closed_def hub_watched_def hub_U_def route_defs sample_facts)

section \<open>Two connections reporting one udid\<close>

text \<open>
  Connection 2 has reported as \<^verbatim>\<open>W\<close> before it reports as \<^verbatim>\<open>U\<close>, the udid of connection 1.
  After the abnormal close of connection 1, connection 2 is still the connection entry
  of \<^verbatim>\<open>W\<close>, with its snapshot, and still in the reverse map. And after a clean close of
  connection 1 nothing is deleted at all.
\<close>

theorem second_udid_survives:
  "map_of (device_links (hub_after json_loads_tab hmac_sha256_tab second_udid_run)) (KStr ''W'') = Some 2
   \<and> map_of (device_table (hub_after json_loads_tab hmac_sha256_tab second_udid_run)) (KStr ''W'')
        = Some state_body_W
   \<and> map_of (device_links_map (hub_after json_loads_tab hmac_sha256_tab second_udid_run)) 2
        = Some (JStr ''U'')
   \<and> map_of (device_links (hub_after json_loads_tab hmac_sha256_tab clean_close_run)) (KStr ''U'') = Some 2
   \<and> map_of (device_links_map (hub_after json_loads_tab hmac_sha256_tab clean_close_run)) 1
        = Some (JStr ''U'')"
  by (simp add: hub_after_def second_udid_run_def clean_close_run_def step_def init_hub_def route_defs
      sample_facts state_body_U_def state_body_W_def connection_closed_def on_close_def dict_del_def
      AList.delete_eq)

text \<open>
  Claim C10, amended. Connection \<open>c1\<close> holds the udid with key \<open>k\<close>; another connection
  \<open>c2\<close> sends an \<^verbatim>\<open>app/state\<close> message with the same udid. In the state \<open>s1\<close> after it, the
  connection entry and the snapshot of the udid are those of \<open>c2\<close>, and the reverse map
  holds the udid for \<open>c1\<close> and for \<open>c2\<close>. When \<open>c1\<close>, not a controller, then closes
  abnormally, the state \<open>s2\<close> has neither connection entry nor snapshot for the udid,
  and the reverse map has lost \<open>c1\<close> and kept \<open>c2\<close>. The connection entries and snapshots
  of all other udids are what they were before the message of \<open>c2\<close>, those that \<open>c2\<close>
  reported earlier among them. A clean close of \<open>c1\<close> changes nothing.
\<close>

theorem duplicate_udid_takeover:
  assumes fwd: "map_of (device_links s) k = Some c1"
    and rev1: "map_of (device_links_map s) c1 = Some u1" and key1: "key_of u1 = Inr k"
    and neq: "c2 \<noteq> c1"
    and loads: "loads message = Inr data"
    and ty: "getitem data ''type'' = Inr (JStr ''app/state'')"
    and body: "getitem data ''body'' = Inr body"
    and system: "getitem body ''system'' = Inr system"
    and udid: "getitem system ''udid'' = Inr u2" and key2: "key_of u2 = Inr k"
    and s1: "s1 = fst (handle_message loads hm t1 t2 s c2 (Text message))"
    and ctl: "c1 \<notin> set (controllers s1)"
    and s2: "s2 = fst (connection_closed s1 c1 AbnormalClose)"
  shows "map_of (device_links s1) k = Some c2 \<and> map_of (device_table s1) k = Some body \<and>
         map_of (device_links_map s1) c1 = Some u1 \<and> map_of (device_links_map s1) c2 = Some u2 \<and>
         map_of (device_links s2) k = None \<and> map_of (device_table s2) k = None \<and>
         map_of (device_links_map s2) c1 = None \<and> map_of (device_links_map s2) c2 = Some u2 \<and>
         (\<forall>k'. k' \<noteq> k \<longrightarrow>
            map_of (device_links s2) k' = map_of (device_links s) k' \<and>
            map_of (device_table s2) k' = map_of (device_table s) k') \<and>
         connection_closed s1 c1 CleanClose = (s1, [], None)"
proof -
  have reg: "register s c2 data =
      Inr (s\<lparr>device_links := AList.update k c2 (device_links s),
             device_links_map := AList.update c2 u2 (device_links_map s),
             device_table := AList.update k body (device_table s)\<rparr>)"
    using body system udid key2 by (simp add: register_def bind_exc_def)
  have "fst (route hm t1 t2 s c2 data) =
      s\<lparr>device_links := AList.update k c2 (device_links s),
        device_links_map := AList.update c2 u2 (device_links_map s),
        device_table := AList.update k body (device_table s)\<rparr>"
    using ty reg by (simp add: route_def relay_state)
  then have s1_eq: "s1 =
      s\<lparr>device_links := AList.update k c2 (device_links s),
        device_links_map := AList.update c2 u2 (device_links_map s),
        device_table := AList.update k body (device_table s)\<rparr>"
    using s1 loads by (simp add: handle_message_text)
  have rev1': "map_of (device_links_map s1) c1 = Some u1"
    using s1_eq rev1 neq by (simp add: map_of_update_other)
  have after: "map_of (device_links s1) k = Some c2" "map_of (device_table s1) k = Some body"
    "map_of (device_links_map s1) c2 = Some u2"
    using s1_eq by (simp_all add: map_of_update_same)
  have s2_eq: "s2 =
      s1\<lparr>device_table := AList.delete k (device_table s1),
         device_links := AList.delete k (device_links s1),
         device_links_map := AList.delete c1 (device_links_map s1)\<rparr>"
    using s2 ctl rev1' key1 after
    by (simp add: connection_closed_def on_close_def dict_del_def Let_def)
  have gone: "map_of (device_links s2) k = None" "map_of (device_table s2) k = None"
    "map_of (device_links_map s2) c1 = None"
    using s2_eq by (simp_all add: map_of_delete_same)
  have kept: "map_of (device_links_map s2) c2 = Some u2"
    using s2_eq after(3) neq by simp
  have others: "k' \<noteq> k \<longrightarrow>
      map_of (device_links s2) k' = map_of (device_links s) k' \<and>
      map_of (device_table s2) k' = map_of (device_table s) k'" for k'
    using s2_eq s1_eq by (simp add: AList.delete_conv' AList.update_conv')
  have clean: "connection_closed s1 c1 CleanClose = (s1, [], None)"
    by (simp add: connection_closed_def)
  show ?thesis using rev1' after gone kept others clean by blast
qed

theorem duplicate_udid_takeover_witness:
  "map_of (device_links hub_UW) (KStr ''U'') = Some 1
   \<and> map_of (device_links (fst (handle_message json_loads_tab hmac_sha256_tab 1700000000 1700000000
        hub_UW 2 (Text frame_state_U)))) (KStr ''U'') = Some 2
   \<and> map_of (device_links (fst (connection_closed (fst (handle_message json_loads_tab hmac_sha256_tab
        1700000000 1700000000 hub_UW 2 (Text frame_state_U))) 1 AbnormalClose))) (KStr ''U'') = None
   \<and> map_of (device_table (fst (connection_closed (fst (handle_message json_loads_tab hmac_sha256_tab
        1700000000 1700000000 hub_UW 2 (Text frame_state_U))) 1 AbnormalClose))) (KStr ''U'') = None
   \<and> map_of (device_links_map (fst (connection_closed (fst (handle_message json_loads_tab hmac_sha256_tab
        1700000000 1700000000 hub_UW 2 (Text frame_state_U))) 1 AbnormalClose))) 2 = Some (JStr ''U'')
   \<and> map_of (device_links (fst (connection_closed (fst (handle_message json_loads_tab hmac_sha256_tab
        1700000000 1700000000 hub_UW 2 (Text frame_state_U))) 1 AbnormalClose))) (KStr ''W'') = Some 2"
proof -
  have fwd: "map_of (device_links hub_UW) (KStr ''U'') = Some 1"
    and rev1: "map_of (device_links_map hub_UW) 1 = Some (JStr ''U'')"
    and fwd_W: "map_of (device_links hub_UW) (KStr ''W'') = Some 2"
    by (simp_all add: hub_UW_def)
  have key: "key_of (JStr ''U'') = Inr (KStr ''U'')" and neq: "(2::nat) \<noteq> 1"
    and other: "KStr ''W'' \<noteq> KStr ''U''"
    by simp_all
  have ty: "getitem (JObj [(''type'', JStr ''app/state''), (''body'', state_body_U)]) ''type'' =
      Inr (JStr ''app/state'')"
    and body: "getitem (JObj [(''type'', JStr ''app/state''), (''body'', state_body_U)]) ''body'' =
      Inr state_body_U"
    and system: "getitem state_body_U ''system'' = Inr (JObj [(''udid'', JStr ''U'')])"
    and udid: "getitem (JObj [(''udid'', JStr ''U'')]) ''udid'' = Inr (JStr ''U'')"
    by (simp_all add: state_body_U_def)
  have ctl: "1 \<notin> set (controllers (fst (handle_message json_loads_tab hmac_sha256_tab
      1700000000 1700000000 hub_UW 2 (Text frame_state_U))))"
    by (simp add: route_defs sample_facts hub_UW_def state_body_U_def)
  from duplicate_udid_takeover [OF fwd rev1 key neq loads_state_U ty body system udid key refl ctl refl]
  show ?thesis using fwd fwd_W other by simp
qed

end
